theory Spec2Isabelle
  imports Complex_Main "HOL-Library.Sublist"
begin

section \<open>Strings\<close>

text \<open>
  Text is a \<^typ>\<open>string\<close>, read as the UTF-8 bytes of the JavaScript string. The operations
  the dashboard applies to text (splitting at a space, searching an ASCII substring, joining,
  trimming white space) cut a string at the same places on the bytes as on the code units.
\<close>

definition nl :: string where
  "nl = [CHR 0x0A]"

text \<open>The degree sign U+00B0 and the bullet U+2022 of the templates, as UTF-8.\<close>

definition deg :: string where
  "deg = [CHR 0xC2, CHR 0xB0]"

definition bullet :: string where
  "bullet = [CHR 0xE2, CHR 0x80, CHR 0xA2]"

text \<open>\<^verbatim>\<open>Array.prototype.join(sep)\<close> on an array of strings.\<close>

fun join :: "string \<Rightarrow> string list \<Rightarrow> string" where
  "join sep [] = []"
| "join sep [x] = x"
| "join sep (x # y # zs) = x @ sep @ join sep (y # zs)"

text \<open>
  \<^verbatim>\<open>String.prototype.split(d)\<close> for a separator \<open>d\<close> of one character: the pieces
  between the separators; never an empty list.
\<close>

fun split_on :: "char \<Rightarrow> string \<Rightarrow> string list" where
  "split_on d [] = [[]]"
| "split_on d (c # cs) =
     (if c = d then [] # split_on d cs
      else (case split_on d cs of
              [] \<Rightarrow> [[c]]
            | w # ws \<Rightarrow> (c # w) # ws))"

text \<open>\<^verbatim>\<open>s.includes(t)\<close>: \<open>t\<close> occurs in \<open>s\<close> as a contiguous piece.\<close>

definition str_includes :: "string \<Rightarrow> string \<Rightarrow> bool" where
  "str_includes s t = sublist t s"

text \<open>
  \<^verbatim>\<open>xs.slice(-n)\<close> for \<open>n\<close> of one or more, as the code calls it: the last \<open>n\<close> elements,
  all of them when there are fewer.
\<close>

definition slice_last :: "nat \<Rightarrow> 'a list \<Rightarrow> 'a list" where
  "slice_last n xs = drop (length xs - n) xs"

text \<open>
  \<^verbatim>\<open>toUpperCase\<close> and \<^verbatim>\<open>toLowerCase\<close> on the letters a to z and A to Z; every
  other byte is kept (file extensions and parameter names are ASCII).
\<close>

definition upper_char :: "char \<Rightarrow> char" where
  "upper_char c =
     (if 97 \<le> (of_char c :: nat) \<and> (of_char c :: nat) \<le> 122
      then char_of ((of_char c :: nat) - 32) else c)"

definition toUpperCase :: "string \<Rightarrow> string" where
  "toUpperCase s = map upper_char s"

definition lower_char :: "char \<Rightarrow> char" where
  "lower_char c =
     (if 65 \<le> (of_char c :: nat) \<and> (of_char c :: nat) \<le> 90
      then char_of ((of_char c :: nat) + 32) else c)"

definition toLowerCase :: "string \<Rightarrow> string" where
  "toLowerCase s = map lower_char s"

text \<open>
  \<^verbatim>\<open>trim\<close> removes the white space and line terminators of ECMAScript from both ends:
  the one-byte ones (TAB, LF, VT, FF, CR, SP), U+00A0 (two bytes) and the three-byte ones
  (U+1680, U+2000 to U+200A, U+2028, U+2029, U+202F, U+205F, U+3000, U+FEFF).
\<close>

definition is_ws1 :: "char \<Rightarrow> bool" where
  "is_ws1 a = (a \<in> {CHR 0x09, CHR 0x0A, CHR 0x0B, CHR 0x0C, CHR 0x0D, CHR 0x20})"

definition is_ws2 :: "char \<Rightarrow> char \<Rightarrow> bool" where
  "is_ws2 a b = (a = CHR 0xC2 \<and> b = CHR 0xA0)"

definition is_ws3 :: "char \<Rightarrow> char \<Rightarrow> char \<Rightarrow> bool" where
  "is_ws3 a b c =
     (a = CHR 0xE1 \<and> b = CHR 0x9A \<and> c = CHR 0x80
      \<or> a = CHR 0xE2 \<and> b = CHR 0x80 \<and>
          (0x80 \<le> (of_char c :: nat) \<and> (of_char c :: nat) \<le> 0x8A
           \<or> c \<in> {CHR 0xA8, CHR 0xA9, CHR 0xAF})
      \<or> a = CHR 0xE2 \<and> b = CHR 0x81 \<and> c = CHR 0x9F
      \<or> a = CHR 0xE3 \<and> b = CHR 0x80 \<and> c = CHR 0x80
      \<or> a = CHR 0xEF \<and> b = CHR 0xBB \<and> c = CHR 0xBF)"

text \<open>
  \<open>strip_ws fwd s\<close> drops leading white space; with \<open>fwd = False\<close> the bytes of \<open>s\<close> are read
  from the end of the text backwards, and so are the multi-byte encodings.
\<close>

fun strip_ws :: "bool \<Rightarrow> string \<Rightarrow> string" where
  "strip_ws fwd (a # b # c # s) =
     (if is_ws1 a then strip_ws fwd (b # c # s)
      else if (if fwd then is_ws2 a b else is_ws2 b a) then strip_ws fwd (c # s)
      else if (if fwd then is_ws3 a b c else is_ws3 c b a) then strip_ws fwd s
      else a # b # c # s)"
| "strip_ws fwd [a, b] =
     (if is_ws1 a then strip_ws fwd [b]
      else if (if fwd then is_ws2 a b else is_ws2 b a) then []
      else [a, b])"
| "strip_ws fwd [a] = (if is_ws1 a then [] else [a])"
| "strip_ws fwd [] = []"

definition trimStart :: "string \<Rightarrow> string" where
  "trimStart s = strip_ws True s"

definition trimEnd :: "string \<Rightarrow> string" where
  "trimEnd s = rev (strip_ws False (rev s))"

definition trim :: "string \<Rightarrow> string" where
  "trim s = trimEnd (trimStart s)"

section \<open>The state of the dashboard (App.jsx)\<close>

text \<open>
  A chat message as \<^verbatim>\<open>addMessage\<close> and \<^verbatim>\<open>streamResponse\<close> build it. The id is
  \<^verbatim>\<open>Date.now() + Math.random()\<close> and the timestamp \<^verbatim>\<open>new Date()\<close>: both come from
  outside and are parameters of the functions that need them.
\<close>

record message =
  msg_id :: rat
  content :: string
  msg_type :: string
  source :: "string option"
  timestamp :: rat
  streaming :: bool

text \<open>
  An entry of \<^verbatim>\<open>uploadedFiles\<close>. The coordinates are kept by the text that the template of
  \<^verbatim>\<open>handleSendMessage\<close> interpolates for \<^verbatim>\<open>lat\<close> and \<^verbatim>\<open>lon\<close>.
\<close>

record uploaded_file =
  file_id :: rat
  file_name :: string
  file_status :: string
  file_size :: nat
  file_type :: string
  file_coordinates :: "(string \<times> string) option"
  file_parameters :: "string list option"

record app =
  messages :: "message list"
  inputMessage :: string
  isTyping :: bool
  showSpinner :: bool
  uploadedFiles :: "uploaded_file list"
  chatHistory :: "message list"

section \<open>handleSendMessage\<close>

text \<open>
  What the server answers: the promise of \<^verbatim>\<open>fetch\<close> or of \<^verbatim>\<open>response.json()\<close> is
  rejected, or the body is an object with \<^verbatim>\<open>success\<close> and an optional \<^verbatim>\<open>response\<close>.
\<close>

record api_result =
  success :: bool
  response :: "string option"

datatype fetch_outcome = Rejected | Resolved api_result

type_synonym backend = "string \<Rightarrow> string \<Rightarrow> fetch_outcome"

text \<open>
  The calls \<^verbatim>\<open>handleSendMessage\<close> makes, in order: state setters, the request (URL and the
  \<^verbatim>\<open>query\<close> of its JSON body), \<^verbatim>\<open>addMessage\<close>, \<^verbatim>\<open>streamResponse\<close> (whose text is
  \<open>None\<close> when \<^verbatim>\<open>result.response\<close> is undefined) and \<^verbatim>\<open>setTimeout\<close>.
\<close>

datatype event =
    AddMessage string string
  | SetInputMessage string
  | SetShowSpinner bool
  | Fetch string string
  | StreamResponse "string option" string string
  | SetTimeout nat

definition file_info :: "uploaded_file \<Rightarrow> string" where
  "file_info f =
     (let fileInfo = file_name f @ '' ('' @ toUpperCase (file_type f) @ '')'';
          fileInfo = (case file_coordinates f of
                        Some (lat, lon) \<Rightarrow>
                          fileInfo @ '' at '' @ lat @ deg @ ''N, '' @ lon @ deg @ ''E''
                      | None \<Rightarrow> fileInfo);
          fileInfo = (case file_parameters f of
                        Some ps \<Rightarrow> fileInfo @ '' with parameters: '' @ join '', '' ps
                      | None \<Rightarrow> fileInfo)
      in fileInfo)"

definition recentFiles :: "uploaded_file list \<Rightarrow> uploaded_file list" where
  "recentFiles fs = slice_last 3 (filter (\<lambda>f. file_status f = ''success'') fs)"

definition enhancedQuery :: "app \<Rightarrow> string \<Rightarrow> string" where
  "enhancedQuery s message =
     (let q = message;
          q = (if length (uploadedFiles s) > 0 \<and> length (recentFiles (uploadedFiles s)) > 0
               then q @ nl @ nl @ ''Context: Recently uploaded files: ''
                      @ join ''; '' (map file_info (recentFiles (uploadedFiles s)))
               else q);
          q = (if length (chatHistory s) > 0
               then q @ nl @ nl @ ''Previous conversation: ''
                      @ join ''; '' (map content (slice_last 2 (chatHistory s)))
               else q)
      in q)"

definition endpoint :: "string \<Rightarrow> string" where
  "endpoint queryType = (if queryType = ''web'' then ''/api/web-search'' else ''/api/query-data'')"

definition url :: "string \<Rightarrow> string" where
  "url queryType = ''http://localhost:8000'' @ endpoint queryType"

text \<open>The test of line 288 that sends a failed query to the web search.\<close>

definition escalates :: "string \<Rightarrow> api_result \<Rightarrow> bool" where
  "escalates queryType result =
     (queryType = ''argo'' \<and>
      (case response result of
         None \<Rightarrow> False
       | Some r \<Rightarrow> r \<noteq> [] \<and> str_includes r ''not available''))"

definition searching_text :: string where
  "searching_text = ''**Searching External Sources**'' @ nl @ nl @
     ''Let me search the web for additional information about your query...''"

definition processing_error_text :: string where
  "processing_error_text = ''**Processing Error**'' @ nl @ nl @
     ''I encountered an issue processing your request. Please try rephrasing your query or check the system status.''"

definition connection_error_text :: string where
  "connection_error_text = ''**Connection Error**'' @ nl @ nl @
     ''I'' @ [CHR 0x27] @ ''m having trouble connecting to the server. Please check your connection and try again.''"

text \<open>\<^verbatim>\<open>result.response || default\<close>: an undefined or empty response gives the default.\<close>

definition or_default :: "string option \<Rightarrow> string \<Rightarrow> string" where
  "or_default r d = (case r of None \<Rightarrow> d | Some t \<Rightarrow> (if t = [] then d else t))"

text \<open>
  \<open>handleSendMessage s backend message queryType isAutoQuery\<close> is the sequence of calls made,
  where \<open>s\<close> is the state of the render whose closure runs (it reads \<^verbatim>\<open>isTyping\<close>,
  \<^verbatim>\<open>uploadedFiles\<close> and \<^verbatim>\<open>chatHistory\<close> from it). The call that the timer makes is the
  same closure's, so it reads the same \<open>s\<close>; its calls follow those of the caller, whose
  \<^verbatim>\<open>finally\<close> block has run by then. A \<^verbatim>\<open>streamResponse\<close> of an undefined text throws
  at \<^verbatim>\<open>text.split\<close>, which the \<^verbatim>\<open>catch\<close> block answers like a rejected request.
\<close>

function handleSendMessage :: "app \<Rightarrow> backend \<Rightarrow> string \<Rightarrow> string \<Rightarrow> bool \<Rightarrow> event list" where
  "handleSendMessage s backend message queryType isAutoQuery =
     (if trim message = [] \<or> isTyping s then []
      else
        (if \<not> isAutoQuery then [AddMessage message ''user'', SetInputMessage []] else [])
        @ [SetShowSpinner True, Fetch (url queryType) (enhancedQuery s message)]
        @ (case backend (url queryType) (enhancedQuery s message) of
             Rejected \<Rightarrow>
               [StreamResponse (Some connection_error_text) ''assistant'' ''error'',
                SetShowSpinner False]
           | Resolved result \<Rightarrow>
               if success result then
                 (case response result of
                    Some r \<Rightarrow>
                      [StreamResponse (Some r) ''assistant'' queryType, SetShowSpinner False]
                  | None \<Rightarrow>
                      [StreamResponse None ''assistant'' queryType,
                       StreamResponse (Some connection_error_text) ''assistant'' ''error'',
                       SetShowSpinner False])
               else if escalates queryType result then
                 [StreamResponse (Some searching_text) ''assistant'' ''system'',
                  SetTimeout 1000, SetShowSpinner False]
                 @ handleSendMessage s backend message ''web'' True
               else
                 [StreamResponse (Some (or_default (response result) processing_error_text))
                    ''assistant'' ''error'',
                  SetShowSpinner False]))"
  by pat_completeness auto
termination
  by (relation "measure (\<lambda>(s, backend, message, queryType, isAutoQuery).
                  if queryType = ''argo'' then 1 else 0)")
     (auto simp: escalates_def)

declare handleSendMessage.simps [simp del]

text \<open>The requests and the scheduled timers of a run.\<close>

fun is_fetch :: "event \<Rightarrow> bool" where
  "is_fetch (Fetch u q) = True"
| "is_fetch e = False"

definition requests :: "event list \<Rightarrow> event list" where
  "requests evs = filter is_fetch evs"

fun is_timeout :: "event \<Rightarrow> bool" where
  "is_timeout (SetTimeout n) = True"
| "is_timeout e = False"

definition scheduled :: "event list \<Rightarrow> event list" where
  "scheduled evs = filter is_timeout evs"

text \<open>
  The branch of lines 288 to 292 is taken: the request was answered, \<^verbatim>\<open>success\<close> is false
  and the test \<open>escalates\<close> holds.
\<close>

definition takes_fallback :: "app \<Rightarrow> backend \<Rightarrow> string \<Rightarrow> string \<Rightarrow> bool" where
  "takes_fallback s backend message queryType =
     (case backend (url queryType) (enhancedQuery s message) of
        Rejected \<Rightarrow> False
      | Resolved result \<Rightarrow> \<not> success result \<and> escalates queryType result)"

text \<open>The state of the first render (the \<^verbatim>\<open>useState\<close> initial values).\<close>

definition initial_app :: app where
  "initial_app = \<lparr>messages = [], inputMessage = [], isTyping = False, showSpinner = False,
                   uploadedFiles = [], chatHistory = []\<rparr>"

text \<open>Servers for the examples.\<close>

definition backend_na :: backend where
  "backend_na u q =
     (if u = url ''argo''
      then Resolved \<lparr>success = False, response = Some ''Data not available''\<rparr>
      else Resolved \<lparr>success = True, response = Some ''From the web''\<rparr>)"

definition backend_unavailable :: backend where
  "backend_unavailable u q = Resolved \<lparr>success = False, response = Some ''Data unavailable''\<rparr>"

definition backend_failed :: backend where
  "backend_failed u q = Resolved \<lparr>success = False, response = Some ''Query failed''\<rparr>"

definition earlier_message :: message where
  "earlier_message = \<lparr>msg_id = 1, content = ''salinity'', msg_type = ''user'', source = None,
                       timestamp = 1, streaming = False\<rparr>"

section \<open>addMessage, streamResponse and the chat history\<close>

text \<open>
  The state updates of the component, each a functional update of React
  (\<^verbatim>\<open>setMessages(prev => ...)\<close>), in the order they are issued.
\<close>

datatype effect =
    IsTyping bool
  | ShowSpinner bool
  | Append message
  | Content rat string
  | Streaming rat bool

fun apply_effect :: "effect \<Rightarrow> app \<Rightarrow> app" where
  "apply_effect (IsTyping b) s = s\<lparr>isTyping := b\<rparr>"
| "apply_effect (ShowSpinner b) s = s\<lparr>showSpinner := b\<rparr>"
| "apply_effect (Append m) s = s\<lparr>messages := messages s @ [m]\<rparr>"
| "apply_effect (Content i c) s =
     s\<lparr>messages := map (\<lambda>msg. if msg_id msg = i then msg\<lparr>content := c\<rparr> else msg) (messages s)\<rparr>"
| "apply_effect (Streaming i b) s =
     s\<lparr>messages := map (\<lambda>msg. if msg_id msg = i then msg\<lparr>streaming := b\<rparr> else msg) (messages s)\<rparr>"

fun run :: "effect list \<Rightarrow> app \<Rightarrow> app" where
  "run [] s = s"
| "run (e # es) s = run es (apply_effect e s)"

text \<open>\<^verbatim>\<open>addMessage(content, type, source)\<close>, with the id and the time it draws.\<close>

definition addMessage :: "string \<Rightarrow> string \<Rightarrow> string option \<Rightarrow> rat \<Rightarrow> rat \<Rightarrow> effect" where
  "addMessage c ty src newId now =
     Append \<lparr>msg_id = newId, content = c, msg_type = ty, source = src, timestamp = now,
             streaming = False\<rparr>"

text \<open>
  The loop of \<^verbatim>\<open>streamResponse\<close> (lines 217 to 227): one update of the content per word.
  The loop reads its own variables only; the pause between two rounds changes none of them.
\<close>

function stream_loop :: "nat \<Rightarrow> string list \<Rightarrow> string \<Rightarrow> rat \<Rightarrow> effect list" where
  "stream_loop i words currentText messageId =
     (if i < length words
      then Content messageId (currentText @ (if i > 0 then '' '' else []) @ words ! i)
           # stream_loop (i + 1) words (currentText @ (if i > 0 then '' '' else []) @ words ! i)
               messageId
      else [])"
  by pat_completeness auto
termination
  by (relation "measure (\<lambda>(i, words, currentText, messageId). length words - i)") auto

declare stream_loop.simps [simp del]

datatype outcome = Returned | Threw

text \<open>
  \<^verbatim>\<open>streamResponse(text, messageType, source)\<close>: its updates and how it ends. An undefined
  text throws a TypeError at \<^verbatim>\<open>text.split\<close>, after the empty message has been appended.
\<close>

definition streamResponse ::
    "string option \<Rightarrow> string \<Rightarrow> string \<Rightarrow> rat \<Rightarrow> rat \<Rightarrow> effect list \<times> outcome" where
  "streamResponse text messageType src messageId now =
     (let start = [IsTyping True, ShowSpinner True,
                   Append \<lparr>msg_id = messageId, content = [], msg_type = messageType,
                           source = Some src, timestamp = now, streaming = True\<rparr>]
      in case text of
           None \<Rightarrow> (start, Threw)
         | Some t \<Rightarrow>
             (start @ stream_loop 0 (split_on CHR '' '' t) [] messageId
                @ [Streaming messageId False, IsTyping False, ShowSpinner False],
              Returned))"

text \<open>The contents a run of updates sets, in order: the segments shown.\<close>

fun emitted :: "effect list \<Rightarrow> string list" where
  "emitted [] = []"
| "emitted (Content i c # es) = c # emitted es"
| "emitted (e # es) = emitted es"

text \<open>
  The effect of lines 54 to 59, run after a render in which \<^verbatim>\<open>messages\<close> changed: the chat
  history becomes the last ten user messages.
\<close>

definition chatHistory_effect :: "app \<Rightarrow> app" where
  "chatHistory_effect s =
     (if length (messages s) > 0
      then s\<lparr>chatHistory := slice_last 10 (filter (\<lambda>msg. msg_type msg = ''user'') (messages s))\<rparr>
      else s)"

text \<open>Appending messages one render at a time, the effect running after each.\<close>

fun appends :: "message list \<Rightarrow> app \<Rightarrow> app" where
  "appends [] s = s"
| "appends (m # ms) s = appends ms (chatHistory_effect (apply_effect (Append m) s))"

text \<open>
  The entry \<^verbatim>\<open>handleFileUpload\<close> appends for a file (lines 96 to 103); the type is the
  lower-cased piece of the name after its last dot.
\<close>

definition register_upload :: "rat \<Rightarrow> string \<Rightarrow> nat \<Rightarrow> app \<Rightarrow> app" where
  "register_upload fileId name bytes s =
     s\<lparr>uploadedFiles := uploadedFiles s @
         [\<lparr>file_id = fileId, file_name = name, file_status = ''uploading'', file_size = bytes,
           file_type = toLowerCase (last (split_on CHR ''.'' name)),
           file_coordinates = None, file_parameters = None\<rparr>]\<rparr>"

text \<open>
  The states a run of updates passes through, and what position \<open>n\<close> of the message list
  shows in a state (nothing while the list is shorter).
\<close>

fun frames :: "effect list \<Rightarrow> app \<Rightarrow> app list" where
  "frames [] s = []"
| "frames (e # es) s = apply_effect e s # frames es (apply_effect e s)"

definition shown :: "nat \<Rightarrow> app \<Rightarrow> string option" where
  "shown n s = (if n < length (messages s) then Some (content (messages s ! n)) else None)"

text \<open>
  The running texts of \<open>t\<close>: its first \<open>k\<close> words joined by single spaces, for \<open>k\<close> from one
  to the number of words. Lemma \<open>stream_loop_segments\<close> shows the loop computes them.
\<close>

definition segments :: "string \<Rightarrow> string list" where
  "segments t = map (\<lambda>k. join '' '' (take (Suc k) (split_on CHR '' '' t)))
                     [0..<length (split_on CHR '' '' t)]"

text \<open>The message \<^verbatim>\<open>streamResponse\<close> appends before the first word.\<close>

definition placeholder :: "string \<Rightarrow> string \<Rightarrow> rat \<Rightarrow> rat \<Rightarrow> message" where
  "placeholder ty src mid now = \<lparr>msg_id = mid, content = [], msg_type = ty, source = Some src,
       timestamp = now, streaming = True\<rparr>"

text \<open>The first \<open>n\<close> user messages of a session, for the examples.\<close>

definition user_messages :: "nat \<Rightarrow> message list" where
  "user_messages n = map (\<lambda>i. \<lparr>msg_id = of_nat i, content = ''salinity'', msg_type = ''user'',
       source = None, timestamp = of_nat i, streaming = False\<rparr>) [0..<n]"


section \<open>Numbers and their two-decimal rendering\<close>

text \<open>
  A JavaScript number is NaN or finite; a finite one is kept by its exact value, which is
  rational. The values \<^verbatim>\<open>safeToFixed\<close> tells apart are undefined, null and numbers.
\<close>

datatype jsnum = Num rat | NaN



definition digit_char :: "nat \<Rightarrow> char" where
  "digit_char d = char_of (48 + d)"

text \<open>The decimal digits of a natural number, \<^verbatim>\<open>0\<close> for zero.\<close>

function digits :: "nat \<Rightarrow> string" where
  "digits n = (if n < 10 then [digit_char n] else digits (n div 10) @ [digit_char (n mod 10)])"
  by pat_completeness auto
termination
  by (relation "measure (\<lambda>n. n)") auto

declare digits.simps [simp del]

text \<open>
  \<^verbatim>\<open>Number.prototype.toFixed(f)\<close> after ECMA-262. For a magnitude \<open>x\<close> below \<open>10\<^sup>2\<^sup>1\<close>:
  \<open>n\<close> is the integer for which \<open>n / 10\<^sup>f - x\<close> is closest to zero, the larger one if there are
  two; its digits are padded with zeros to \<open>f + 1\<close> and the point is set before the last
  \<open>f\<close>. A negative number gets the sign; NaN gives \<^verbatim>\<open>NaN\<close>; a magnitude of \<open>10\<^sup>2\<^sup>1\<close> or
  more gives the text of \<^verbatim>\<open>Number::toString\<close>, which is the parameter \<open>big\<close>; more than a
  hundred digits raise a RangeError.
\<close>

definition fixed_n :: "nat \<Rightarrow> rat \<Rightarrow> nat" where
  "fixed_n f x = nat \<lfloor>x * 10 ^ f + 1 / 2\<rfloor>"

definition fixed_digits :: "nat \<Rightarrow> nat \<Rightarrow> string" where
  "fixed_digits f n =
     (let m = digits n in
      if f = 0 then m
      else (let m = (if length m \<le> f then replicate (f + 1 - length m) CHR ''0'' @ m else m);
                k = length m
            in take (k - f) m @ ''.'' @ drop (k - f) m))"

definition fixed :: "(rat \<Rightarrow> string) \<Rightarrow> nat \<Rightarrow> jsnum \<Rightarrow> string" where
  "fixed big f v =
     (case v of
        NaN \<Rightarrow> ''NaN''
      | Num x \<Rightarrow>
          (if x < 0 then ''-'' else [])
          @ (if \<bar>x\<bar> \<ge> 10 ^ 21 then big \<bar>x\<bar> else fixed_digits f (fixed_n f \<bar>x\<bar>)))"






section \<open>The structured queries (AdvancedQueries.jsx)\<close>

text \<open>
  One entry of \<^verbatim>\<open>result.data.analysis\<close> as \<^verbatim>\<open>executeBGCQuery\<close> reads it, and the text
  that the body of its \<^verbatim>\<open>forEach\<close> (lines 157 to 162) appends for a parameter.
\<close>

record analysis =
  overall_min :: jsnum
  overall_max :: jsnum
  mean_min :: jsnum
  mean_max :: jsnum
  unit :: string
  profiles_count :: nat

definition capitalize :: "string \<Rightarrow> string" where
  "capitalize p = (case p of [] \<Rightarrow> [] | c # cs \<Rightarrow> upper_char c # cs)"

definition bgc_entry_text :: "(rat \<Rightarrow> string) \<Rightarrow> string \<times> analysis \<Rightarrow> string" where
  "bgc_entry_text big e =
     (case e of (param, a) \<Rightarrow>
        nl @ nl @ ''**'' @ capitalize param @ ''**:''
        @ nl @ bullet @ '' Range: '' @ fixed big 2 (overall_min a) @ '' - ''
             @ fixed big 2 (overall_max a) @ '' '' @ unit a
        @ nl @ bullet @ '' Mean variation: '' @ fixed big 2 (mean_min a) @ '' - ''
             @ fixed big 2 (mean_max a) @ '' '' @ unit a
        @ nl @ bullet @ '' Data coverage: '' @ digits (profiles_count a) @ '' profiles analyzed'')"

definition bgc_parameter_summary ::
    "(rat \<Rightarrow> string) \<Rightarrow> string \<Rightarrow> (string \<times> analysis) list \<Rightarrow> string" where
  "bgc_parameter_summary big chatResponse entries =
     foldl (\<lambda>acc e. acc @ bgc_entry_text big e) chatResponse entries"

text \<open>The state of the three forms.\<close>

record temporalQuery =
  startDate :: string
  endDate :: string
  temporal_region :: string
  season :: string

record spatialQuery =
  latitude :: jsnum
  longitude :: jsnum
  radius :: jsnum
  spatial_region :: string

record bgcQuery =
  parameters :: "string list"
  bgc_region :: string
  comparison :: bool

text \<open>
  A GET request: the URL up to the question mark and the query parameters, each a number
  or a text interpolated as it is, or a text passed through \<^verbatim>\<open>encodeURIComponent\<close>.
\<close>

datatype param_value = PNum jsnum | PText string | PEncoded string

datatype get_request = Get string "(string \<times> param_value) list"

fun get_url :: "get_request \<Rightarrow> string" where
  "get_url (Get u ps) = u"

definition temporal_request :: "temporalQuery \<Rightarrow> get_request" where
  "temporal_request q =
     Get ''http://localhost:8000/api/temporal-data''
       ([(''start_date'', PText (startDate q)), (''end_date'', PText (endDate q))]
        @ (if temporal_region q \<noteq> [] then [(''region'', PEncoded (temporal_region q))] else []))"

definition spatial_request :: "spatialQuery \<Rightarrow> get_request" where
  "spatial_request q =
     Get ''http://localhost:8000/api/floats/nearest''
       [(''lat'', PNum (latitude q)), (''lon'', PNum (longitude q)),
        (''radius'', PNum (radius q))]"

definition bgc_request :: "bgcQuery \<Rightarrow> get_request" where
  "bgc_request q =
     Get ''http://localhost:8000/api/bgc-analysis''
       ([(''parameters'', PText (join '','' (parameters q)))]
        @ (if bgc_region q \<noteq> [] then [(''region'', PEncoded (bgc_region q))] else []))"

text \<open>
  How a structured request ends: \<open>Failed\<close> when the request or the reading of its body is
  rejected; \<open>Malformed\<close> when \<^verbatim>\<open>success\<close> is true but the body lacks what the summary
  reads, so that building it throws after \<^verbatim>\<open>setQueryResults\<close>; otherwise the
  \<^verbatim>\<open>success\<close> flag of a body that has it all. The three handlers have one shape; their
  calls are \<^verbatim>\<open>setLoading\<close>, the request, \<^verbatim>\<open>setQueryResults\<close> and
  \<^verbatim>\<open>onQuerySubmit\<close> with the query type it passes (the summary text is left out).
\<close>

datatype structured_outcome = Failed | Malformed | Answered bool

datatype form_event =
    SetLoading bool
  | FetchGet get_request
  | SetQueryResults
  | OnQuerySubmit string

definition execute_form :: "get_request \<Rightarrow> string \<Rightarrow> structured_outcome \<Rightarrow> form_event list" where
  "execute_form req queryType out =
     [SetLoading True, FetchGet req]
     @ (case out of
          Failed \<Rightarrow> [OnQuerySubmit ''error'']
        | Malformed \<Rightarrow> [SetQueryResults, OnQuerySubmit ''error'']
        | Answered ok \<Rightarrow> (if ok then [SetQueryResults, OnQuerySubmit queryType] else []))
     @ [SetLoading False]"

definition executeTemporalQuery :: "temporalQuery \<Rightarrow> structured_outcome \<Rightarrow> form_event list" where
  "executeTemporalQuery q out = execute_form (temporal_request q) ''temporal'' out"

definition executeSpatialQuery :: "spatialQuery \<Rightarrow> structured_outcome \<Rightarrow> form_event list" where
  "executeSpatialQuery q out = execute_form (spatial_request q) ''spatial'' out"

definition executeBGCQuery :: "bgcQuery \<Rightarrow> structured_outcome \<Rightarrow> form_event list" where
  "executeBGCQuery q out = execute_form (bgc_request q) ''bgc_comparison'' out"

text \<open>
  \<^verbatim>\<open>handleAdvancedQuerySubmit\<close> of App.jsx, which the forms receive as \<^verbatim>\<open>onQuerySubmit\<close>.
\<close>

definition handleAdvancedQuerySubmit ::
    "string \<Rightarrow> string \<Rightarrow> rat \<Rightarrow> rat \<Rightarrow> effect list \<times> outcome" where
  "handleAdvancedQuerySubmit resp queryType messageId now =
     streamResponse (Some resp) ''assistant'' queryType messageId now"

text \<open>
  The ranges the input fields of the spatial form declare (\<^verbatim>\<open>min\<close> and \<^verbatim>\<open>max\<close> of the
  latitude and longitude inputs).
\<close>

definition in_range :: "rat \<Rightarrow> rat \<Rightarrow> jsnum \<Rightarrow> bool" where
  "in_range lo hi v = (case v of NaN \<Rightarrow> False | Num x \<Rightarrow> lo \<le> x \<and> x \<le> hi)"

definition within_declared_range :: "spatialQuery \<Rightarrow> bool" where
  "within_declared_range q = (in_range (-90) 90 (latitude q) \<and> in_range (-180) 180 (longitude q))"

text \<open>Examples.\<close>

definition spatial_default :: spatialQuery where
  "spatial_default = \<lparr>latitude = Num (1552 / 100), longitude = Num (6825 / 100),
                       radius = Num 100, spatial_region = []\<rparr>"

definition spatial_off_range :: spatialQuery where
  "spatial_off_range = \<lparr>latitude = Num 95, longitude = Num 200, radius = Num 100,
                         spatial_region = []\<rparr>"



section \<open>Properties of handleSendMessage\<close>

subsection \<open>Evaluation on the examples\<close>


lemma trim_hi: "trim ''hi'' = ''hi''"
  by (simp add: trim_def trimStart_def trimEnd_def is_ws1_def is_ws2_def)

lemma not_typing_initial: "\<not> isTyping initial_app"
  by (simp add: initial_app_def)

lemma enhancedQuery_initial: "enhancedQuery initial_app m = m"
  by (simp add: enhancedQuery_def initial_app_def recentFiles_def slice_last_def)

lemma includes_na: "str_includes ''Data not available'' ''not available''"
  unfolding str_includes_def by code_simp

lemma not_includes_unavailable: "\<not> str_includes ''Data unavailable'' ''not available''"
  unfolding str_includes_def by code_simp

lemma not_includes_failed: "\<not> str_includes ''Query failed'' ''not available''"
  unfolding str_includes_def by code_simp

lemma fallback_na: "takes_fallback initial_app backend_na ''hi'' ''argo''"
  by (simp add: takes_fallback_def backend_na_def escalates_def includes_na)

lemma no_fallback_unavailable: "\<not> takes_fallback initial_app backend_unavailable ''hi'' ''argo''"
  by (simp add: takes_fallback_def backend_unavailable_def escalates_def not_includes_unavailable)

lemma no_fallback_failed: "\<not> takes_fallback initial_app backend_failed ''hi'' ''argo''"
  by (simp add: takes_fallback_def backend_failed_def escalates_def not_includes_failed)

subsection \<open>The guard and the two shapes of a run\<close>

lemma handleSendMessage_guard:
  "trim message = [] \<or> isTyping s \<Longrightarrow>
     handleSendMessage s backend message queryType isAutoQuery = []"
  by (subst handleSendMessage.simps) auto

lemma escalates_web: "\<not> escalates ''web'' r"
  by (simp add: escalates_def)

lemma escalates_argo: "escalates queryType r \<Longrightarrow> queryType = ''argo''"
  by (simp add: escalates_def)

lemma no_fallback_web: "\<not> takes_fallback s backend message ''web''"
  by (simp add: takes_fallback_def escalates_web split: fetch_outcome.splits)

lemma takes_fallback_argo: "takes_fallback s backend message queryType \<Longrightarrow> queryType = ''argo''"
  by (auto simp: takes_fallback_def split: fetch_outcome.splits dest: escalates_argo)

lemma requests_direct:
  "\<not> takes_fallback s backend message queryType \<Longrightarrow>
   requests (handleSendMessage s backend message queryType isAutoQuery) =
     (if trim message = [] \<or> isTyping s then []
      else [Fetch (url queryType) (enhancedQuery s message)])"
  by (subst handleSendMessage.simps)
     (auto simp: takes_fallback_def requests_def split: fetch_outcome.splits option.splits)

lemma scheduled_direct:
  "\<not> takes_fallback s backend message queryType \<Longrightarrow>
   scheduled (handleSendMessage s backend message queryType isAutoQuery) = []"
  by (subst handleSendMessage.simps)
     (auto simp: takes_fallback_def scheduled_def split: fetch_outcome.splits option.splits)

lemma handleSendMessage_fallback:
  "takes_fallback s backend message queryType \<Longrightarrow> \<not> (trim message = [] \<or> isTyping s) \<Longrightarrow>
   handleSendMessage s backend message queryType isAutoQuery =
     (if \<not> isAutoQuery then [AddMessage message ''user'', SetInputMessage []] else [])
     @ [SetShowSpinner True, Fetch (url queryType) (enhancedQuery s message),
        StreamResponse (Some searching_text) ''assistant'' ''system'',
        SetTimeout 1000, SetShowSpinner False]
     @ handleSendMessage s backend message ''web'' True"
  by (subst handleSendMessage.simps)
     (auto simp: takes_fallback_def split: fetch_outcome.splits option.splits)

lemma requests_fallback:
  "takes_fallback s backend message queryType \<Longrightarrow> \<not> (trim message = [] \<or> isTyping s) \<Longrightarrow>
   requests (handleSendMessage s backend message queryType isAutoQuery) =
     [Fetch (url queryType) (enhancedQuery s message),
      Fetch (url ''web'') (enhancedQuery s message)]"
  using requests_direct[OF no_fallback_web, of s backend message True]
  by (simp add: handleSendMessage_fallback) (simp add: requests_def)

lemma scheduled_fallback:
  "takes_fallback s backend message queryType \<Longrightarrow> \<not> (trim message = [] \<or> isTyping s) \<Longrightarrow>
   scheduled (handleSendMessage s backend message queryType isAutoQuery) = [SetTimeout 1000]"
  using scheduled_direct[OF no_fallback_web, of s backend message True]
  by (simp add: handleSendMessage_fallback) (simp add: scheduled_def)

lemma scheduled_guard:
  "trim message = [] \<or> isTyping s \<Longrightarrow>
   scheduled (handleSendMessage s backend message queryType isAutoQuery) = []"
  by (simp add: handleSendMessage_guard scheduled_def)

subsection \<open>The fallback to the web search\<close>

text \<open>
  C1, as the code has it. A run that passes the guard issues its request; it schedules the
  web search exactly when the request is answered with \<^verbatim>\<open>success\<close> false, the query
  type is \<^verbatim>\<open>argo\<close> and the response text contains \<^verbatim>\<open>not available\<close>
  (\<open>takes_fallback\<close>). Then exactly one timer is set and exactly one request to the web
  search follows; the run of the web query never schedules another, so a query causes at
  most two requests, at most one of them a fallback.
\<close>

theorem handleSendMessage_fallback_once:
  "requests (handleSendMessage s backend message queryType isAutoQuery) =
     (if trim message = [] \<or> isTyping s then []
      else if takes_fallback s backend message queryType
      then [Fetch (url ''argo'') (enhancedQuery s message),
            Fetch (url ''web'') (enhancedQuery s message)]
      else [Fetch (url queryType) (enhancedQuery s message)])
   \<and> scheduled (handleSendMessage s backend message queryType isAutoQuery) =
     (if trim message \<noteq> [] \<and> \<not> isTyping s \<and> takes_fallback s backend message queryType
      then [SetTimeout 1000] else [])"
proof (cases "trim message = [] \<or> isTyping s")
  case True
  then show ?thesis
    by (auto simp: handleSendMessage_guard requests_def scheduled_def)
next
  case False
  show ?thesis
  proof (cases "takes_fallback s backend message queryType")
    case True
    with False show ?thesis
      using takes_fallback_argo[OF True]
      by (simp add: requests_fallback scheduled_fallback)
  next
    case no: False
    with False show ?thesis
      by (simp add: requests_direct scheduled_direct)
  qed
qed

theorem handleSendMessage_fallback_once_witness:
  "requests (handleSendMessage initial_app backend_na ''hi'' ''argo'' False) =
     [Fetch ''http://localhost:8000/api/query-data'' ''hi'',
      Fetch ''http://localhost:8000/api/web-search'' ''hi'']
   \<and> scheduled (handleSendMessage initial_app backend_na ''hi'' ''argo'' False) = [SetTimeout 1000]"
  using handleSendMessage_fallback_once[of initial_app backend_na "''hi''" "''argo''" False]
  by (simp add: trim_hi fallback_na not_typing_initial enhancedQuery_initial url_def endpoint_def)

text \<open>
  C1, as stated, fails: a primary request that fails with a response that does not contain
  \<^verbatim>\<open>not available\<close> is not escalated at all.
\<close>

theorem failed_request_without_fallback:
  "backend_failed (url ''argo'') (enhancedQuery initial_app ''hi'')
     = Resolved \<lparr>success = False, response = Some ''Query failed''\<rparr>
   \<and> requests (handleSendMessage initial_app backend_failed ''hi'' ''argo'' False) =
     [Fetch ''http://localhost:8000/api/query-data'' ''hi'']
   \<and> scheduled (handleSendMessage initial_app backend_failed ''hi'' ''argo'' False) = []"
  by (simp add: requests_direct[OF no_fallback_failed] scheduled_direct[OF no_fallback_failed]
        trim_hi not_typing_initial enhancedQuery_initial url_def endpoint_def backend_failed_def)

lemma str_includes_iff: "str_includes s t \<longleftrightarrow> (\<exists>pre post. s = pre @ t @ post)"
  by (simp add: str_includes_def sublist_def)

lemma escalates_iff:
  "escalates queryType r \<longleftrightarrow>
     queryType = ''argo'' \<and> (\<exists>pre post. response r = Some (pre @ ''not available'' @ post))"
  by (auto simp: escalates_def str_includes_iff split: option.splits)

text \<open>
  C2, as the code has it. Whether the fallback is scheduled is decided by the text of the
  response: it is scheduled exactly when the run passes the guard, the query type is
  \<^verbatim>\<open>argo\<close>, the request is answered with \<^verbatim>\<open>success\<close> false and the response text
  has \<^verbatim>\<open>not available\<close> as a substring.
\<close>

theorem fallback_decided_by_response_text:
  "scheduled (handleSendMessage s backend message queryType isAutoQuery) \<noteq> [] \<longleftrightarrow>
     trim message \<noteq> [] \<and> \<not> isTyping s \<and> queryType = ''argo'' \<and>
     (\<exists>r pre post. backend (url queryType) (enhancedQuery s message) = Resolved r \<and>
        \<not> success r \<and> response r = Some (pre @ ''not available'' @ post))"
proof (cases "trim message = [] \<or> isTyping s")
  case True
  then show ?thesis
    using scheduled_guard[OF True] by auto
next
  case False
  have tf: "takes_fallback s backend message queryType \<longleftrightarrow>
     queryType = ''argo'' \<and>
     (\<exists>r pre post. backend (url queryType) (enhancedQuery s message) = Resolved r \<and>
        \<not> success r \<and> response r = Some (pre @ ''not available'' @ post))"
    by (auto simp: takes_fallback_def escalates_iff split: fetch_outcome.splits)
  show ?thesis
  proof (cases "takes_fallback s backend message queryType")
    case True
    have "scheduled (handleSendMessage s backend message queryType isAutoQuery) \<noteq> []"
      using scheduled_fallback[OF True False] by simp
    then show ?thesis using True False tf by blast
  next
    case no: False
    have "scheduled (handleSendMessage s backend message queryType isAutoQuery) = []"
      using scheduled_direct[OF no] by simp
    then show ?thesis using no tf by blast
  qed
qed

theorem fallback_decided_by_response_text_witness:
  "scheduled (handleSendMessage initial_app backend_na ''hi'' ''argo'' False) \<noteq> []
   \<and> backend_na (url ''argo'') (enhancedQuery initial_app ''hi'')
       = Resolved \<lparr>success = False, response = Some (''Data '' @ ''not available'' @ [])\<rparr>"
proof -
  have b: "backend_na (url ''argo'') (enhancedQuery initial_app ''hi'')
       = Resolved \<lparr>success = False, response = Some (''Data '' @ ''not available'' @ [])\<rparr>"
    by (simp add: backend_na_def)
  have "\<exists>r pre post. backend_na (url ''argo'') (enhancedQuery initial_app ''hi'') = Resolved r \<and>
        \<not> success r \<and> response r = Some (pre @ ''not available'' @ post)"
    by (rule exI[of _ "\<lparr>success = False, response = Some (''Data '' @ ''not available'' @ [])\<rparr>"],
        rule exI[of _ "''Data ''"], rule exI[of _ "[]"]) (simp add: b)
  then show ?thesis
    using fallback_decided_by_response_text[of initial_app backend_na "''hi''" "''argo''" False] b
    by (simp add: trim_hi not_typing_initial)
qed

text \<open>
  C2, as stated, fails: two answers with the same status (\<^verbatim>\<open>success\<close> false, a response
  text present) are told apart by the substring alone; one is escalated, the other is not.
\<close>

theorem same_status_different_text:
  "success \<lparr>success = False, response = Some ''Data not available''\<rparr>
     = success \<lparr>success = False, response = Some ''Data unavailable''\<rparr>
   \<and> scheduled (handleSendMessage initial_app backend_na ''hi'' ''argo'' False) = [SetTimeout 1000]
   \<and> scheduled (handleSendMessage initial_app backend_unavailable ''hi'' ''argo'' False) = []"
  by (simp add: scheduled_fallback[OF fallback_na] scheduled_direct[OF no_fallback_unavailable]
        trim_hi not_typing_initial)

subsection \<open>The query that is sent\<close>

lemma slice_last_Nil_iff: "0 < n \<Longrightarrow> slice_last n xs = [] \<longleftrightarrow> xs = []"
  by (cases xs) (auto simp: slice_last_def)

lemma recentFiles_nonempty:
  "(length fs > 0 \<and> length (recentFiles fs) > 0) = (recentFiles fs \<noteq> [])"
proof -
  have "recentFiles [] = []"
    by (simp add: recentFiles_def slice_last_def)
  then show ?thesis by (cases fs) auto
qed

lemma enhancedQuery_cong:
  assumes "recentFiles (uploadedFiles s) = recentFiles (uploadedFiles s')"
      and "map content (slice_last 2 (chatHistory s)) = map content (slice_last 2 (chatHistory s'))"
  shows "enhancedQuery s message = enhancedQuery s' message"
proof -
  have f: "(length (uploadedFiles s) > 0 \<and> length (recentFiles (uploadedFiles s)) > 0)
       = (length (uploadedFiles s') > 0 \<and> length (recentFiles (uploadedFiles s')) > 0)"
    using recentFiles_nonempty[of "uploadedFiles s"] recentFiles_nonempty[of "uploadedFiles s'"]
      assms(1) by metis
  have "slice_last 2 (chatHistory s) = [] \<longleftrightarrow> slice_last 2 (chatHistory s') = []"
    using assms(2) by (metis map_is_Nil_conv)
  then have h: "(length (chatHistory s) > 0) = (length (chatHistory s') > 0)"
    by (simp add: slice_last_Nil_iff)
  show ?thesis
    by (simp only: enhancedQuery_def Let_def f h) (simp only: assms)
qed

lemma handleSendMessage_web_cong:
  assumes "isTyping s = isTyping s'" and "enhancedQuery s message = enhancedQuery s' message"
  shows "handleSendMessage s backend message ''web'' a = handleSendMessage s' backend message ''web'' a"
  by (subst handleSendMessage.simps, subst (2) handleSendMessage.simps)
     (auto simp: assms escalates_web split: fetch_outcome.splits option.splits)

lemma handleSendMessage_cong:
  assumes "isTyping s = isTyping s'" and "enhancedQuery s message = enhancedQuery s' message"
  shows "handleSendMessage s backend message queryType a = handleSendMessage s' backend message queryType a"
  by (subst handleSendMessage.simps, subst (2) handleSendMessage.simps)
     (auto simp: assms handleSendMessage_web_cong[OF assms] split: fetch_outcome.splits option.splits)

text \<open>
  C7, as the code has it. The URL depends on the query type alone, and the query sent is
  the raw text followed by context taken from the state: it is determined by the text, the
  last three successfully uploaded files and the contents of the last two entries of the
  chat history. Two renders that agree on these (and on \<^verbatim>\<open>isTyping\<close>) make the same
  calls for the same text.
\<close>

theorem query_determined_by_text_and_context:
  assumes "isTyping s = isTyping s'"
      and "recentFiles (uploadedFiles s) = recentFiles (uploadedFiles s')"
      and "map content (slice_last 2 (chatHistory s)) = map content (slice_last 2 (chatHistory s'))"
  shows "enhancedQuery s message = enhancedQuery s' message
       \<and> handleSendMessage s backend message queryType isAutoQuery
         = handleSendMessage s' backend message queryType isAutoQuery"
  using handleSendMessage_cong[OF assms(1) enhancedQuery_cong[OF assms(2,3)]]
        enhancedQuery_cong[OF assms(2,3)] by simp

theorem query_determined_by_text_and_context_witness:
  "isTyping initial_app = isTyping (initial_app\<lparr>inputMessage := ''draft'', showSpinner := True\<rparr>)
   \<and> enhancedQuery initial_app ''hi'' = enhancedQuery (initial_app\<lparr>inputMessage := ''draft'', showSpinner := True\<rparr>) ''hi''
   \<and> handleSendMessage initial_app backend_na ''hi'' ''argo'' False
     = handleSendMessage (initial_app\<lparr>inputMessage := ''draft'', showSpinner := True\<rparr>) backend_na ''hi'' ''argo'' False"
  using query_determined_by_text_and_context[of initial_app
          "initial_app\<lparr>inputMessage := ''draft'', showSpinner := True\<rparr>" "''hi''" backend_na "''argo''" False]
  by simp

text \<open>
  C7, as stated, fails: the same raw text gives a different query once the chat history
  holds an earlier message.
\<close>

theorem same_text_different_query:
  "enhancedQuery initial_app ''hi'' = ''hi''
   \<and> enhancedQuery (initial_app\<lparr>chatHistory := [earlier_message]\<rparr>) ''hi''
       = ''hi'' @ nl @ nl @ ''Previous conversation: salinity''
   \<and> enhancedQuery initial_app ''hi'' \<noteq> enhancedQuery (initial_app\<lparr>chatHistory := [earlier_message]\<rparr>) ''hi''"
  by (simp add: enhancedQuery_def initial_app_def recentFiles_def slice_last_def earlier_message_def nl_def)

subsection \<open>The guard\<close>



section \<open>Properties of streamResponse and of the chat history\<close>

subsection \<open>Splitting, joining and the loop\<close>

lemma split_on_nonempty: "split_on d s \<noteq> []"
  by (induction s) (auto split: list.splits)

lemma join_split_on: "join [d] (split_on d s) = s"
proof (induction s)
  case Nil
  then show ?case by simp
next
  case (Cons c cs)
  obtain w ws where ws: "split_on d cs = w # ws"
    using split_on_nonempty[of d cs] by (cases "split_on d cs") auto
  show ?case
    using Cons ws by (cases ws) auto
qed

lemma join_snoc: "join sep (xs @ [x]) = join sep xs @ (if xs = [] then [] else sep) @ x"
  by (induction sep xs rule: join.induct) auto

lemma join_take_Suc:
  "i < length ws \<Longrightarrow>
   join sep (take (Suc i) ws) = join sep (take i ws) @ (if i > 0 then sep else []) @ ws ! i"
  by (auto simp: take_Suc_conv_app_nth join_snoc)

lemma stream_loop_eq:
  "currentText = join '' '' (take i words) \<Longrightarrow> i \<le> length words \<Longrightarrow>
   stream_loop i words currentText messageId =
     map (\<lambda>k. Content messageId (join '' '' (take (Suc k) words))) [i..<length words]"
proof (induction i words currentText messageId rule: stream_loop.induct)
  case (1 i words currentText messageId)
  show ?case
  proof (cases "i < length words")
    case True
    have step: "currentText @ (if i > 0 then '' '' else []) @ words ! i = join '' '' (take (Suc i) words)"
      using True "1.prems" by (simp add: join_take_Suc)
    have "stream_loop (i + 1) words (join '' '' (take (Suc i) words)) messageId =
       map (\<lambda>k. Content messageId (join '' '' (take (Suc k) words))) [Suc i..<length words]"
      using "1.IH"[OF True] step True by simp
    then show ?thesis
      using True step by (subst stream_loop.simps) (simp add: upt_conv_Cons)
  next
    case False
    then show ?thesis using "1.prems" by (subst stream_loop.simps) simp
  qed
qed

lemma emitted_append: "emitted (xs @ ys) = emitted xs @ emitted ys"
  by (induction xs rule: emitted.induct) auto

lemma emitted_Contents: "emitted (map (\<lambda>k. Content i (f k)) ks) = map f ks"
  by (induction ks) simp_all


lemma run_append: "run (xs @ ys) s = run ys (run xs s)"
  by (induction xs arbitrary: s) auto

lemma frames_append: "frames (xs @ ys) s = frames xs s @ frames ys (run xs s)"
  by (induction xs arbitrary: s) auto

lemma Content_at:
  assumes "n < length (messages st)" and "msg_id (messages st ! n) = mid"
  shows "messages (apply_effect (Content mid c) st) ! n = (messages st ! n)\<lparr>content := c\<rparr>"
    and "length (messages (apply_effect (Content mid c) st)) = length (messages st)"
    and "isTyping (apply_effect (Content mid c) st) = isTyping st"
    and "showSpinner (apply_effect (Content mid c) st) = showSpinner st"
  using assms by simp_all

lemma frames_Contents:
  "n < length (messages st) \<Longrightarrow> msg_id (messages st ! n) = mid \<Longrightarrow>
   map (shown n) (frames (map (Content mid) cs) st) = map Some cs"
proof (induction cs arbitrary: st)
  case Nil
  then show ?case by simp
next
  case (Cons c cs)
  let ?st = "apply_effect (Content mid c) st"
  have a: "n < length (messages ?st)" "msg_id (messages ?st ! n) = mid"
    using Cons.prems by (simp_all add: Content_at)
  have "shown n ?st = Some c"
    using Cons.prems by (simp add: shown_def)
  then show ?case using Cons.IH[OF a] by simp
qed

lemma run_Contents:
  "n < length (messages st) \<Longrightarrow> msg_id (messages st ! n) = mid \<Longrightarrow> cs \<noteq> [] \<Longrightarrow>
   messages (run (map (Content mid) cs) st) ! n = (messages st ! n)\<lparr>content := last cs\<rparr>
   \<and> length (messages (run (map (Content mid) cs) st)) = length (messages st)
   \<and> isTyping (run (map (Content mid) cs) st) = isTyping st
   \<and> showSpinner (run (map (Content mid) cs) st) = showSpinner st"
proof (induction cs arbitrary: st)
  case Nil
  then show ?case by simp
next
  case (Cons c cs)
  let ?st = "apply_effect (Content mid c) st"
  have a: "n < length (messages ?st)" "msg_id (messages ?st ! n) = mid"
    using Cons.prems by (simp_all add: Content_at)
  show ?case
  proof (cases "cs = []")
    case True
    then show ?thesis using Cons.prems by simp
  next
    case False
    then show ?thesis
      using Cons.IH[OF a False] Cons.prems by simp
  qed
qed

lemma segments_nonempty: "segments t \<noteq> []"
  using split_on_nonempty[of "CHR '' ''" t] by (simp add: segments_def)

lemma last_segments: "last (segments t) = t"
proof -
  let ?ws = "split_on CHR '' '' t"
  have n: "0 < length ?ws" using split_on_nonempty[of "CHR '' ''" t] by simp
  have "last (segments t) = join '' '' (take (Suc (length ?ws - 1)) ?ws)"
    using n by (simp add: segments_def last_map)
  also have "\<dots> = join '' '' ?ws" using n by simp
  finally show ?thesis by (simp add: join_split_on)
qed

lemma segments_prefix:
  "Suc k < length (segments t) \<Longrightarrow> prefix (segments t ! k) (segments t ! Suc k)"
  by (simp add: segments_def join_take_Suc)

lemma stream_loop_segments:
  "stream_loop 0 (split_on CHR '' '' t) [] mid = map (Content mid) (segments t)"
  by (simp add: stream_loop_eq segments_def)

lemma emitted_streamResponse2:
  "emitted (fst (streamResponse (Some t) ty src mid now)) = segments t"
  by (simp add: streamResponse_def emitted_append stream_loop_segments emitted_Contents[where f="\<lambda>c. c", simplified])

lemma streamResponse_Some:
  "streamResponse (Some t) ty src mid now =
     ([IsTyping True, ShowSpinner True, Append (placeholder ty src mid now)]
        @ map (Content mid) (segments t)
        @ [Streaming mid False, IsTyping False, ShowSpinner False], Returned)"
  by (simp add: streamResponse_def stream_loop_segments placeholder_def)

lemma started:
  fixes s :: app and ty src mid now
  defines "s1 \<equiv> run [IsTyping True, ShowSpinner True, Append (placeholder ty src mid now)] s"
  shows "length (messages s1) = Suc (length (messages s))"
    and "messages s1 ! length (messages s) = placeholder ty src mid now"
    and "msg_id (messages s1 ! length (messages s)) = mid"
    and "map (shown (length (messages s)))
           (frames [IsTyping True, ShowSpinner True, Append (placeholder ty src mid now)] s)
         = [None, None, Some []]"
  by (simp_all add: s1_def shown_def placeholder_def)

lemma finished:
  assumes "n < length (messages st)" and "msg_id (messages st ! n) = mid"
  shows "messages (run [Streaming mid False, IsTyping False, ShowSpinner False] st) ! n
           = (messages st ! n)\<lparr>streaming := False\<rparr>"
    and "length (messages (run [Streaming mid False, IsTyping False, ShowSpinner False] st))
           = length (messages st)"
    and "\<not> isTyping (run [Streaming mid False, IsTyping False, ShowSpinner False] st)"
    and "\<not> showSpinner (run [Streaming mid False, IsTyping False, ShowSpinner False] st)"
    and "map (shown n) (frames [Streaming mid False, IsTyping False, ShowSpinner False] st)
           = [Some (content (messages st ! n)), Some (content (messages st ! n)),
              Some (content (messages st ! n))]"
  using assms by (simp_all add: shown_def)

lemma streamResponse_run:
  fixes s :: app and t ty src mid now
  defines "n \<equiv> length (messages s)"
  defines "effs \<equiv> fst (streamResponse (Some t) ty src mid now)"
  shows "messages (run effs s) ! n =
           \<lparr>msg_id = mid, content = t, msg_type = ty, source = Some src, timestamp = now,
             streaming = False\<rparr>"
    and "length (messages (run effs s)) = Suc n"
    and "\<not> isTyping (run effs s)" and "\<not> showSpinner (run effs s)"
    and "map (shown n) (frames effs s) =
           [None, None, Some []] @ map Some (segments t) @ [Some t, Some t, Some t]"
proof -
  let ?start = "[IsTyping True, ShowSpinner True, Append (placeholder ty src mid now)]"
  let ?fin = "[Streaming mid False, IsTyping False, ShowSpinner False]"
  let ?s1 = "run ?start s"
  let ?s2 = "run (map (Content mid) (segments t)) ?s1"
  have e: "effs = ?start @ map (Content mid) (segments t) @ ?fin"
    by (simp add: effs_def streamResponse_Some)
  have n1: "n < length (messages ?s1)" and id1: "msg_id (messages ?s1 ! n) = mid"
    and m1: "messages ?s1 ! n = placeholder ty src mid now"
    and l1: "length (messages ?s1) = Suc n"
    using started[where s=s and ty=ty and src=src and mid=mid and now=now] by (simp_all add: n_def)
  have r2: "messages ?s2 ! n = (messages ?s1 ! n)\<lparr>content := last (segments t)\<rparr>"
    and l2: "length (messages ?s2) = length (messages ?s1)"
    using run_Contents[OF n1 id1 segments_nonempty] by simp_all
  have m2: "messages ?s2 ! n = (placeholder ty src mid now)\<lparr>content := t\<rparr>"
    using r2 m1 by (simp add: last_segments)
  have n2: "n < length (messages ?s2)" and id2: "msg_id (messages ?s2 ! n) = mid"
    using l2 n1 m2 by (simp_all add: placeholder_def)
  have r: "run effs s = run ?fin ?s2"
    unfolding e by (simp only: run_append)
  show "messages (run effs s) ! n =
           \<lparr>msg_id = mid, content = t, msg_type = ty, source = Some src, timestamp = now,
             streaming = False\<rparr>"
    unfolding r using finished(1)[OF n2 id2] m2 by (simp add: placeholder_def)
  show "length (messages (run effs s)) = Suc n"
    unfolding r using finished(2)[OF n2 id2] l2 l1 by simp
  show "\<not> isTyping (run effs s)"
    unfolding r using finished(3)[OF n2 id2] by simp
  show "\<not> showSpinner (run effs s)"
    unfolding r using finished(4)[OF n2 id2] by simp
  have f: "frames effs s = frames ?start s @ frames (map (Content mid) (segments t)) ?s1
             @ frames ?fin ?s2"
    unfolding e by (simp only: frames_append run_append)
  have c2: "content (messages ?s2 ! n) = t"
    using m2 by simp
  show "map (shown n) (frames effs s) =
           [None, None, Some []] @ map Some (segments t) @ [Some t, Some t, Some t]"
    unfolding f map_append
    using started(4)[where s=s and ty=ty and src=src and mid=mid and now=now] frames_Contents[OF n1 id1, of "segments t"]
      finished(5)[OF n2 id2] c2
    by (simp only: n_def)
qed

subsection \<open>The stream\<close>

text \<open>
  C4. For every answer text, \<^verbatim>\<open>streamResponse\<close> returns, and the contents it sets come in
  order: there is at least one, each is a prefix of the next, and the last is the whole
  text. The message it appended shows the empty text, then these contents one after the
  other, then the whole text to the end; in the final state it holds the whole text with
  \<^verbatim>\<open>streaming\<close> false, and \<^verbatim>\<open>isTyping\<close> is false again.
\<close>

theorem streamResponse_in_order:
  "snd (streamResponse (Some t) ty src mid now) = Returned
   \<and> emitted (fst (streamResponse (Some t) ty src mid now)) \<noteq> []
   \<and> (\<forall>k. Suc k < length (emitted (fst (streamResponse (Some t) ty src mid now))) \<longrightarrow>
          prefix (emitted (fst (streamResponse (Some t) ty src mid now)) ! k)
                 (emitted (fst (streamResponse (Some t) ty src mid now)) ! Suc k))
   \<and> last (emitted (fst (streamResponse (Some t) ty src mid now))) = t
   \<and> map (shown (length (messages s))) (frames (fst (streamResponse (Some t) ty src mid now)) s)
       = [None, None, Some []]
         @ map Some (emitted (fst (streamResponse (Some t) ty src mid now)))
         @ [Some t, Some t, Some t]
   \<and> messages (run (fst (streamResponse (Some t) ty src mid now)) s) ! length (messages s)
       = \<lparr>msg_id = mid, content = t, msg_type = ty, source = Some src, timestamp = now,
          streaming = False\<rparr>
   \<and> \<not> isTyping (run (fst (streamResponse (Some t) ty src mid now)) s)"
  using streamResponse_run(1,3,5)[where s=s and t=t and ty=ty and src=src and mid=mid and now=now]
    segments_prefix[where t=t]
  by (simp add: emitted_streamResponse2 segments_nonempty last_segments)
     (simp add: streamResponse_Some)

lemma emitted_abc:
  "emitted (fst (streamResponse (Some ''a b c'') ''assistant'' ''argo'' 7 8)) = [''a'', ''a b'', ''a b c'']"
  by (simp add: streamResponse_def stream_loop.simps)

theorem streamResponse_in_order_witness:
  "Suc 0 < length (emitted (fst (streamResponse (Some ''a b c'') ''assistant'' ''argo'' 7 8)))
   \<and> prefix (emitted (fst (streamResponse (Some ''a b c'') ''assistant'' ''argo'' 7 8)) ! 0)
             (emitted (fst (streamResponse (Some ''a b c'') ''assistant'' ''argo'' 7 8)) ! Suc 0)
   \<and> last (emitted (fst (streamResponse (Some ''a b c'') ''assistant'' ''argo'' 7 8))) = ''a b c''
   \<and> messages (run (fst (streamResponse (Some ''a b c'') ''assistant'' ''argo'' 7 8)) initial_app)
         ! length (messages initial_app)
       = \<lparr>msg_id = 7, content = ''a b c'', msg_type = ''assistant'', source = Some ''argo'',
          timestamp = 8, streaming = False\<rparr>"
proof -
  have l: "Suc 0 < length (emitted (fst (streamResponse (Some ''a b c'') ''assistant'' ''argo'' 7 8)))"
    by (simp add: emitted_abc)
  show ?thesis
    using streamResponse_in_order[of "''a b c''" "''assistant''" "''argo''" 7 8 initial_app] l
    by blast
qed

text \<open>
  C5, as the code has it. \<^verbatim>\<open>streamResponse\<close> takes no cancellation signal and its loop
  tests only its own counter: for every text there are as many segments as words (at least
  one), and for every \<open>k\<close> below that number segment \<open>k + 1\<close> is emitted, the first
  \<open>k + 1\<close> words joined by spaces. The component has no cache, so nothing is written to one.
\<close>

theorem streamResponse_emits_every_segment:
  "length (emitted (fst (streamResponse (Some t) ty src mid now))) = length (split_on CHR '' '' t)
   \<and> 0 < length (split_on CHR '' '' t)
   \<and> (\<forall>k. k < length (split_on CHR '' '' t) \<longrightarrow>
         emitted (fst (streamResponse (Some t) ty src mid now)) ! k
           = join '' '' (take (Suc k) (split_on CHR '' '' t)))"
  using split_on_nonempty[of "CHR '' ''" t]
  by (simp add: emitted_streamResponse2 segments_def)

lemma split_abc: "split_on CHR '' '' ''a b c'' = [''a'', ''b'', ''c'']"
  by simp

theorem streamResponse_emits_every_segment_witness:
  "(1::nat) < length (split_on CHR '' '' ''a b c'')
   \<and> emitted (fst (streamResponse (Some ''a b c'') ''assistant'' ''argo'' 7 8)) ! 1 = ''a b''"
  using streamResponse_emits_every_segment[of "''a b c''" "''assistant''" "''argo''" 7 8]
  by (simp add: split_abc)

text \<open>
  C5, as stated, fails: for the text \<^verbatim>\<open>a b c\<close>, once the first segment is delivered
  (the first four updates), the remaining updates still deliver segments two and three;
  no argument of \<^verbatim>\<open>streamResponse\<close> and no state it reads can stop them.
\<close>

theorem stream_not_cancellable:
  "take 4 (fst (streamResponse (Some ''a b c'') ''assistant'' ''argo'' 7 8))
     = [IsTyping True, ShowSpinner True,
        Append \<lparr>msg_id = 7, content = [], msg_type = ''assistant'', source = Some ''argo'',
                timestamp = 8, streaming = True\<rparr>,
        Content 7 ''a'']
   \<and> emitted (drop 4 (fst (streamResponse (Some ''a b c'') ''assistant'' ''argo'' 7 8)))
     = [''a b'', ''a b c'']"
  by (simp add: streamResponse_def stream_loop.simps)

subsection \<open>The chat history\<close>

lemma slice_last_length: "length (slice_last n xs) = min n (length xs)"
  by (simp add: slice_last_def)

lemma appends_inv:
  "messages (appends ms s) = messages s @ ms
   \<and> (ms \<noteq> [] \<longrightarrow> chatHistory (appends ms s)
         = slice_last 10 (filter (\<lambda>m. msg_type m = ''user'') (messages s @ ms)))
   \<and> uploadedFiles (appends ms s) = uploadedFiles s"
proof (induction ms arbitrary: s)
  case Nil
  then show ?case by simp
next
  case (Cons m ms)
  let ?s = "chatHistory_effect (apply_effect (Append m) s)"
  have a: "messages ?s = messages s @ [m]" "uploadedFiles ?s = uploadedFiles s"
    "chatHistory ?s = slice_last 10 (filter (\<lambda>m. msg_type m = ''user'') (messages s @ [m]))"
    by (simp_all add: chatHistory_effect_def)
  show ?case
    using Cons.IH[of ?s] a by (cases ms) simp_all
qed

lemma slice_last_snoc:
  "slice_last n (xs @ [x]) =
     (if n = 0 then [] else if length xs < n then xs @ [x] else tl (slice_last n xs) @ [x])"
  by (auto simp: slice_last_def tl_drop drop_Suc[symmetric] Suc_diff_le simp del: drop_Suc)

lemma appends_initial:
  "messages (appends ms initial_app) = ms"
  "chatHistory (appends ms initial_app) = slice_last 10 (filter (\<lambda>m. msg_type m = ''user'') ms)"
  using appends_inv[of ms initial_app]
  by (cases ms; simp add: initial_app_def slice_last_def)+

text \<open>
  C9, as the code has it. After any sequence of appended messages the chat history is the
  last ten user messages, in order: at most ten entries, and a user message appended to a
  full history drops the oldest entry. The message list itself keeps every message
  appended, and every registered upload adds an entry to \<^verbatim>\<open>uploadedFiles\<close>: neither
  list is bounded.
\<close>

theorem history_bounded_lists_grow:
  "chatHistory (appends ms initial_app) = slice_last 10 (filter (\<lambda>m. msg_type m = ''user'') ms)
   \<and> length (chatHistory (appends ms initial_app)) \<le> 10
   \<and> (msg_type m = ''user'' \<longrightarrow>
        chatHistory (appends (ms @ [m]) initial_app) =
          (if length (chatHistory (appends ms initial_app)) < 10
           then chatHistory (appends ms initial_app) @ [m]
           else tl (chatHistory (appends ms initial_app)) @ [m]))
   \<and> messages (appends ms initial_app) = ms
   \<and> length (uploadedFiles (register_upload fileId name bytes s)) = Suc (length (uploadedFiles s))"
proof -
  let ?u = "filter (\<lambda>m. msg_type m = ''user'') ms"
  have small: "length ?u < 10 \<Longrightarrow> slice_last 10 ?u = ?u"
    by (simp add: slice_last_def)
  have fifo: "msg_type m = ''user'' \<Longrightarrow>
      slice_last 10 (filter (\<lambda>m. msg_type m = ''user'') (ms @ [m])) =
        (if length (slice_last 10 ?u) < 10 then slice_last 10 ?u @ [m]
         else tl (slice_last 10 ?u) @ [m])"
    using small by (simp add: slice_last_snoc slice_last_length)
  show ?thesis
    using fifo by (simp add: appends_initial slice_last_length register_upload_def)
qed

theorem history_bounded_lists_grow_witness:
  "msg_type earlier_message = ''user''
   \<and> chatHistory (appends ([] @ [earlier_message]) initial_app) = [earlier_message]
   \<and> messages (appends [] initial_app) = []"
  using history_bounded_lists_grow[of "[]" earlier_message]
  by (simp add: earlier_message_def initial_app_def)

lemma user_messages_user: "filter (\<lambda>m. msg_type m = ''user'') (user_messages n) = user_messages n"
  by (simp add: user_messages_def filter_map comp_def)

text \<open>
  C9, as stated, fails for the message list: after eleven user messages it holds eleven
  entries, while the chat history holds ten.
\<close>

theorem messages_exceed_history:
  "length (messages (appends (user_messages 11) initial_app)) = 11
   \<and> length (chatHistory (appends (user_messages 11) initial_app)) = 10"
  by (simp add: appends_initial user_messages_user slice_last_length) (simp add: user_messages_def)

section \<open>Properties of the number rendering\<close>




lemma digits_nonempty: "digits n \<noteq> []"
  by (subst digits.simps) simp











section \<open>Properties of the structured queries\<close>

lemma url_cases: "url queryType = ''http://localhost:8000/api/web-search''
                \<or> url queryType = ''http://localhost:8000/api/query-data''"
  by (simp add: url_def endpoint_def)

text \<open>
  C8, as the code has it. Each structured form issues its own GET request, first thing
  after \<^verbatim>\<open>setLoading(true)\<close>, to an endpoint of its own, which is neither of the two
  URLs \<^verbatim>\<open>handleSendMessage\<close> posts a free-text query to. What the forms share with the
  free-text queries is the display: \<^verbatim>\<open>onQuerySubmit\<close> streams the summary through
  \<^verbatim>\<open>streamResponse\<close>.
\<close>

theorem structured_queries_use_own_endpoints:
  "get_url (temporal_request tq) = ''http://localhost:8000/api/temporal-data''
   \<and> get_url (spatial_request sq) = ''http://localhost:8000/api/floats/nearest''
   \<and> get_url (bgc_request bq) = ''http://localhost:8000/api/bgc-analysis''
   \<and> get_url (temporal_request tq) \<noteq> url queryType
   \<and> get_url (spatial_request sq) \<noteq> url queryType
   \<and> get_url (bgc_request bq) \<noteq> url queryType
   \<and> take 2 (executeTemporalQuery tq out) = [SetLoading True, FetchGet (temporal_request tq)]
   \<and> take 2 (executeSpatialQuery sq out) = [SetLoading True, FetchGet (spatial_request sq)]
   \<and> take 2 (executeBGCQuery bq out) = [SetLoading True, FetchGet (bgc_request bq)]
   \<and> handleAdvancedQuerySubmit resp queryType messageId now
       = streamResponse (Some resp) ''assistant'' queryType messageId now"
  using url_cases[of queryType]
  by (auto simp: temporal_request_def spatial_request_def bgc_request_def
        executeTemporalQuery_def executeSpatialQuery_def executeBGCQuery_def execute_form_def
        handleAdvancedQuerySubmit_def)

text \<open>
  C8, as stated, fails: a spatial query with latitude 95 and longitude 200, outside the
  ranges its input fields declare, is issued like any other, and to the endpoint of the
  spatial form, not to one of the free-text URLs.
\<close>

theorem off_range_spatial_query_issued:
  "\<not> within_declared_range spatial_off_range
   \<and> executeSpatialQuery spatial_off_range (Answered True) =
       [SetLoading True,
        FetchGet (Get ''http://localhost:8000/api/floats/nearest''
                    [(''lat'', PNum (Num 95)), (''lon'', PNum (Num 200)), (''radius'', PNum (Num 100))]),
        SetQueryResults, OnQuerySubmit ''spatial'', SetLoading False]
   \<and> url ''argo'' = ''http://localhost:8000/api/query-data''
   \<and> url ''web'' = ''http://localhost:8000/api/web-search''"
  by (simp add: within_declared_range_def in_range_def spatial_off_range_def
        executeSpatialQuery_def execute_form_def spatial_request_def url_def endpoint_def)

end
